theory Spec2Isabelle
  imports Complex_Main "HOL-Library.Word"
begin

section \<open>The BeagleG motion planner (gcode-machine-control)\<close>

text \<open>
  A shallow embedding of the planner of \<^verbatim>\<open>GCodeMachineControl::Impl\<close> (the C++ source;
  line numbers in the comments refer to it).

  Conventions of the embedding:
  \<^item> C \<^verbatim>\<open>int\<close> is modelled by \<open>int\<close>; signed overflow (undefined in C) is not modelled.
  \<^item> C \<^verbatim>\<open>float\<close>/\<^verbatim>\<open>double\<close> are modelled by \<open>real\<close>. In the planner (segmenter, junction
    solver, target builder) the arithmetic is exact: rounding, infinities and NaN are
    not modelled, and the concrete inputs of the examples are chosen so that every float
    operation on them is exact or only compared. In \<open>set_speed_factor\<close> and in the
    feedrates of the two move callbacks, where a property is about the value stored,
    each float operation is the exact operation followed by the rounding to binary32
    (\<open>to_float\<close>). A quotient whose divisor is zero is outside the model (in HOL it
    is 0).
  \<^item> an array indexed by axis or by motor is a function from the index (a \<open>nat\<close>); the
    loops over the axes and motors are folds over \<open>[0..<n]\<close>.
  \<^item> a pointer into the planning buffer is the index of its slot.
  \<^item> a failing \<^verbatim>\<open>assert\<close> is the error value \<open>AssertionFailed\<close>.
  \<^item> messages written with \<^verbatim>\<open>fprintf(stderr, ...)\<close> are not modelled; messages written
    with \<^verbatim>\<open>mprintf\<close> are: the format string and its arguments.
\<close>

subsection \<open>Constants and types of the headers\<close>

text \<open>
  Modelled from the spec: the number of logical axes (gcode-parser.h is not among the
  sources). The spec gives the axes X, Y, Z, E, A, B, C, U, V, W; the source lists its
  per-axis defaults "in sequence of enum GCodeParserAxes: XYZEABCUVW".
\<close>
definition GCODE_NUM_AXES :: nat where
  "GCODE_NUM_AXES = 10"

definition AXIS_X :: nat where "AXIS_X = 0"
definition AXIS_Y :: nat where "AXIS_Y = 1"
definition AXIS_Z :: nat where "AXIS_Z = 2"
definition AXIS_E :: nat where "AXIS_E = 3"
definition AXIS_A :: nat where "AXIS_A = 4"

text \<open>
  Modelled from the spec: the number of motor drivers (motor-operations.h is not among
  the sources). A \<^verbatim>\<open>DriverBitmap\<close> is a \<^verbatim>\<open>uint8_t\<close> with one bit per driver.
\<close>
definition BEAGLEG_NUM_MOTORS :: nat where
  "BEAGLEG_NUM_MOTORS = 8"

type_synonym DriverBitmap = "8 word"
type_synonym AxesRegister = "nat \<Rightarrow> real"

text \<open>
  Modelled from the spec: the letters of the axes, in the order of the enum, and the
  conversions between letter and axis of gcode-parser.h. An unknown letter gives
  \<open>GCODE_NUM_AXES\<close> (the source tests for this value).
\<close>
definition axis_letters :: string where
  "axis_letters = ''XYZEABCUVW''"




definition gcodep_axis2letter :: "nat \<Rightarrow> char" where
  "gcodep_axis2letter a = (if a < GCODE_NUM_AXES then axis_letters ! a else CHR ''?'')"

text \<open>\<^verbatim>\<open>struct AxisTarget\<close> (lines 82-91).\<close>
record AxisTarget =
  position_steps :: "nat \<Rightarrow> int"
  delta_steps :: "nat \<Rightarrow> int"
  defining_axis :: nat
  speed :: real
  angle :: real
  aux_bits :: "16 word"

text \<open>
  Modelled from the spec: \<^verbatim>\<open>struct MotorMovement\<close> of motor-operations.h: signed step counts
  per driver, start and end speed, the aux bits.
\<close>
record MotorMovement =
  steps :: "nat \<Rightarrow> int"
  v0 :: real
  v1 :: real
  mm_aux_bits :: "16 word"

text \<open>
  Modelled from the spec: the motor queue (\<^verbatim>\<open>MotorOperations\<close>). The model records the
  calls made to it, in their order.
\<close>
datatype motor_event = Enqueue MotorMovement | WaitQueueEmpty | MotorEnable bool

text \<open>\<^verbatim>\<open>struct EndstopConfig\<close> (lines 96-100).\<close>
record EndstopConfig =
  trigger_value :: int
  homing_use :: bool
  endstop_number :: nat

text \<open>\<^verbatim>\<open>enum HomingState\<close> (lines 104-108), in the order of the enum.\<close>
datatype HomingState =
  HOMING_STATE_NEVER_HOMED
| HOMING_STATE_HOMED_BUT_MOTORS_UNPOWERED
| HOMING_STATE_HOMED

text \<open>
  Modelled from the spec: the fields of \<^verbatim>\<open>struct MachineControlConfig\<close>
  (gcode-machine-control.h) that the planner reads.
\<close>
record MachineControlConfig =
  steps_per_mm :: AxesRegister
  move_range_mm :: AxesRegister
  speed_factor :: real
  threshold_angle :: real
  home_order :: string
  require_homing :: bool
  range_check :: bool
  synchronous :: bool

datatype error = AssertionFailed

text \<open>The arguments of a \<^verbatim>\<open>printf\<close> format and a message: the format and its arguments.\<close>
datatype printf_arg = ArgF real | ArgC char | ArgI int | ArgS string
type_synonym message = "string \<times> printf_arg list"

subsection \<open>The planning buffer\<close>

text \<open>
  Modelled from the spec: the container \<^verbatim>\<open>RingDeque<AxisTarget, 4>\<close> (container.h is not
  among the sources). The spec describes a bounded ring of capacity 4 over a fixed array
  with a read cursor: \<open>append\<close> reserves the next slot and fails as a programming error
  when the buffer would exceed its capacity, \<open>back\<close> is the most recently appended
  entry, \<open>[i]\<close> the i-th entry from the oldest, \<open>pop_front\<close> advances the read cursor.
  The operations return the index of a slot where the C++ returns a pointer; the slot
  that \<open>append\<close> reserves keeps its old content. Reading an entry that is not there is
  an assertion failure.
\<close>
record RingDeque =
  buffer :: "nat \<Rightarrow> AxisTarget"
  read_pos :: nat
  count :: nat

definition CAPACITY :: nat where
  "CAPACITY = 4"

definition ring_size :: "RingDeque \<Rightarrow> nat" where
  "ring_size rb = count rb"

definition ring_append :: "RingDeque \<Rightarrow> error + (nat \<times> RingDeque)" where
  "ring_append rb =
     (if count rb < CAPACITY
      then Inr ((read_pos rb + count rb) mod CAPACITY, rb\<lparr>count := count rb + 1\<rparr>)
      else Inl AssertionFailed)"

definition ring_at :: "RingDeque \<Rightarrow> nat \<Rightarrow> error + nat" where
  "ring_at rb pos =
     (if pos < count rb then Inr ((read_pos rb + pos) mod CAPACITY) else Inl AssertionFailed)"

definition ring_back :: "RingDeque \<Rightarrow> error + nat" where
  "ring_back rb =
     (if 0 < count rb then Inr ((read_pos rb + count rb - 1) mod CAPACITY)
      else Inl AssertionFailed)"

definition ring_pop_front :: "RingDeque \<Rightarrow> error + RingDeque" where
  "ring_pop_front rb =
     (if 0 < count rb
      then Inr (rb\<lparr>read_pos := (read_pos rb + 1) mod CAPACITY, count := count rb - 1\<rparr>)
      else Inl AssertionFailed)"

subsection \<open>The state of the machine control\<close>

text \<open>
  The members of \<^verbatim>\<open>GCodeMachineControl::Impl\<close> (lines 171-208), without their trailing
  underscore (\<open>aux_bits'\<close> is \<^verbatim>\<open>aux_bits_\<close>). \<open>msg_stream\<close> is \<open>None\<close> for a NULL stream, and
  else holds what was written to the stream. \<open>motor_ops\<close> holds the calls made to the
  motor queue. The GPIO inputs are read from \<open>gpio_input\<close>: the n-th call of
  \<^verbatim>\<open>get_gpio(d)\<close> returns \<open>gpio_input n d\<close>, and \<open>gpio_reads\<close> counts the calls so far.
  \<open>END_GPIO n\<close> is the descriptor \<^verbatim>\<open>END_n_GPIO\<close> of the hardware header.
\<close>
record Impl =
  cfg :: MachineControlConfig
  motor_ops :: "motor_event list"
  msg_stream :: "message list option"
  g0_feedrate_mm_per_sec :: real
  max_axis_speed :: AxesRegister
  max_axis_accel :: AxesRegister
  axis_to_driver :: "nat \<Rightarrow> DriverBitmap"
  axis_flip :: "nat \<Rightarrow> int"
  driver_flip :: "nat \<Rightarrow> int"
  min_endstop :: "nat \<Rightarrow> EndstopConfig"
  max_endstop :: "nat \<Rightarrow> EndstopConfig"
  coordinate_display_origin :: AxesRegister
  current_feedrate_mm_per_sec :: real
  prog_speed_factor :: real
  aux_bits' :: "16 word"
  planning_buffer :: RingDeque
  homing_state :: HomingState
  END_GPIO :: "nat \<Rightarrow> nat"
  gpio_input :: "nat \<Rightarrow> nat \<Rightarrow> int"
  gpio_reads :: nat

subsection \<open>Conversions between float and int\<close>

text \<open>\<^verbatim>\<open>roundf\<close> rounds to the nearest integer, halfway cases away from zero (line 213).\<close>
definition round2int :: "real \<Rightarrow> int" where
  "round2int x = (if 0 \<le> x then \<lfloor>x + 1/2\<rfloor> else - \<lfloor>- x + 1/2\<rfloor>)"

text \<open>The conversion of a float to \<^verbatim>\<open>int\<close> truncates towards zero.\<close>
definition float_to_int :: "real \<Rightarrow> int" where
  "float_to_int x = (if 0 \<le> x then \<lfloor>x\<rfloor> else \<lceil>x\<rceil>)"

text \<open>
  The value of a float operation: the exact result rounded to the nearest binary32
  number (24 bits of precision, smallest exponent -126, halfway cases to the even
  neighbour). Overflow to infinity is not modelled.
\<close>
definition round_to_even :: "real \<Rightarrow> int" where
  "round_to_even x =
     (let f = \<lfloor>x\<rfloor>; d = x - real_of_int f
      in if d < 1/2 then f
         else if d > 1/2 then f + 1
         else if even f then f else f + 1)"

definition float_ulp :: "real \<Rightarrow> real" where
  "float_ulp x = 2 powr (real_of_int (max \<lfloor>log 2 \<bar>x\<bar>\<rfloor> (- 126)) - 23)"

definition to_float :: "real \<Rightarrow> real" where
  "to_float x =
     (if x = 0 then 0
      else real_of_int (round_to_even (x / float_ulp x)) * float_ulp x)"

text \<open>\<^verbatim>\<open>mprintf\<close> (lines 222-227): prints only if there is a message stream.\<close>
definition mprintf :: "Impl \<Rightarrow> message \<Rightarrow> Impl" where
  "mprintf s m =
     (case msg_stream s of
        None \<Rightarrow> s
      | Some out \<Rightarrow> s\<lparr>msg_stream := Some (out @ [m])\<rparr>)"


subsection \<open>Speeds and junctions\<close>

text \<open>\<^verbatim>\<open>euclid_distance\<close> (lines 446-448).\<close>
definition euclid_distance :: "real \<Rightarrow> real \<Rightarrow> real \<Rightarrow> real" where
  "euclid_distance x y z = sqrt (x*x + y*y + z*z)"

text \<open>
  \<^verbatim>\<open>steps_for_speed_change\<close> (lines 453-465). The result is the number of steps and the
  value of \<^verbatim>\<open>*v1\<close> on return.
\<close>
definition steps_for_speed_change :: "real \<Rightarrow> real \<Rightarrow> real \<Rightarrow> int \<Rightarrow> real \<times> real" where
  "steps_for_speed_change a v0' v1' max_steps =
     (let t = (v1' - v0') / a;
          steps' = a/2 * t*t + v0' * t
      in if steps' \<le> real_of_int max_steps then (steps', v1')
         else (real_of_int max_steps, sqrt (v0'*v0' + 2 * a * real_of_int max_steps)))"

text \<open>\<^verbatim>\<open>acceleration_for_move\<close> (lines 467-472).\<close>
definition acceleration_for_move :: "Impl \<Rightarrow> (nat \<Rightarrow> int) \<Rightarrow> nat \<Rightarrow> real" where
  "acceleration_for_move s axis_steps defining_axis' = max_axis_accel s defining_axis'"

text \<open>\<^verbatim>\<open>get_peak_speed\<close> (lines 477-479).\<close>
definition get_peak_speed :: "real \<Rightarrow> real \<Rightarrow> real \<Rightarrow> real \<Rightarrow> real" where
  "get_peak_speed s' v0' v2' a = sqrt (v2'*v2' + v0'*v0' + 2 * a * s') / sqrt 2"

text \<open>\<^verbatim>\<open>get_speed_factor_for_axis\<close> (lines 482-486).\<close>
definition get_speed_factor_for_axis :: "AxisTarget \<Rightarrow> nat \<Rightarrow> real" where
  "get_speed_factor_for_axis t request_axis =
     (if delta_steps t (defining_axis t) = 0 then 0
      else 1 * real_of_int (delta_steps t request_axis)
             / real_of_int (delta_steps t (defining_axis t)))"

text \<open>\<^verbatim>\<open>get_speed_for_axis\<close> (lines 490-493).\<close>
definition get_speed_for_axis :: "AxisTarget \<Rightarrow> nat \<Rightarrow> real" where
  "get_speed_for_axis target request_axis =
     speed target * get_speed_factor_for_axis target request_axis"

text \<open>\<^verbatim>\<open>within_acceptable_range\<close> (lines 495-500).\<close>
definition within_acceptable_range :: "real \<Rightarrow> real \<Rightarrow> real \<Rightarrow> bool" where
  "within_acceptable_range new_val old_val fraction =
     (let max_diff = fraction * old_val
      in if new_val < old_val - max_diff then False
         else if new_val > old_val + max_diff then False
         else True)"

text \<open>
  \<^verbatim>\<open>determine_joining_speed\<close> (lines 507-540). The loop over the axes is the recursion
  over the list of the axes still to visit, with the loop's variables \<open>is_first\<close> and
  \<open>from_defining_speed\<close>; a \<^verbatim>\<open>return\<close> in the loop ends the recursion.
\<close>
fun joining_speed_loop ::
  "AxisTarget \<Rightarrow> AxisTarget \<Rightarrow> real \<Rightarrow> real \<Rightarrow> nat list \<Rightarrow> bool \<Rightarrow> real \<Rightarrow> real" where
  "joining_speed_loop from to threshold angle' [] is_first from_defining_speed =
     from_defining_speed"
| "joining_speed_loop from to threshold angle' (axis # rest) is_first from_defining_speed =
     (let from_delta = delta_steps from axis;
          to_delta = delta_steps to axis
      in if angle' < threshold
           then joining_speed_loop from to threshold angle' rest is_first from_defining_speed
         else if from_delta = 0 \<and> to_delta = 0
           then joining_speed_loop from to threshold angle' rest is_first from_defining_speed
         else if from_delta = 0 \<or> to_delta = 0 then 0
         else if (from_delta < 0 \<and> to_delta > 0) \<or> (from_delta > 0 \<and> to_delta < 0) then 0
         else
           (let to_speed = get_speed_for_axis to axis;
                speed_conversion =
                  1 * real_of_int (delta_steps from (defining_axis from))
                    / real_of_int (delta_steps from axis);
                goal = to_speed * speed_conversion
            in if goal < 0 then 0
               else if is_first \<or> within_acceptable_range goal from_defining_speed (1/100000)
                 then joining_speed_loop from to threshold angle' rest False
                        (if goal < from_defining_speed then goal else from_defining_speed)
               else 0))"

definition determine_joining_speed ::
  "AxisTarget \<Rightarrow> AxisTarget \<Rightarrow> real \<Rightarrow> real \<Rightarrow> real" where
  "determine_joining_speed from to threshold angle' =
     joining_speed_loop from to threshold angle' [0..<GCODE_NUM_AXES] True (speed from)"

subsection \<open>Fan-out to the motors\<close>

text \<open>\<^verbatim>\<open>assign_steps_to_motors\<close> (lines 543-553).\<close>
definition assign_steps_to_motors :: "Impl \<Rightarrow> MotorMovement \<Rightarrow> nat \<Rightarrow> int \<Rightarrow> MotorMovement" where
  "assign_steps_to_motors s command axis steps' =
     (let motormap_for_axis = axis_to_driver s axis
      in fold (\<lambda>motor c.
                 if bit motormap_for_axis motor
                 then c\<lparr>steps := (steps c)(motor := axis_flip s axis * driver_flip s motor * steps')\<rparr>
                 else c)
              [0..<BEAGLEG_NUM_MOTORS] command)"

text \<open>
  \<^verbatim>\<open>substract_steps\<close> (lines 556-564): the value after the subtraction and the flag
  \<open>has_nonzero\<close>. \<open>substract_step\<close> is the body of its loop.
\<close>
definition substract_step ::
  "MotorMovement \<Rightarrow> nat \<Rightarrow> MotorMovement \<times> bool \<Rightarrow> MotorMovement \<times> bool" where
  "substract_step substract i st =
     (case st of (v, has_nonzero) \<Rightarrow>
        (let v' = v\<lparr>steps := (steps v)(i := steps v i - steps substract i)\<rparr>
         in (v', has_nonzero \<or> steps v' i \<noteq> 0)))"

definition substract_steps :: "MotorMovement \<Rightarrow> MotorMovement \<Rightarrow> MotorMovement \<times> bool" where
  "substract_steps val substract =
     fold (substract_step substract) [0..<BEAGLEG_NUM_MOTORS] (val, False)"

subsection \<open>The segmenter\<close>

text \<open>
  \<^verbatim>\<open>move_machine_steps\<close> (lines 576-703) is modelled in three parts, in the order of the
  source. The first part (lines 586-639) computes the speeds and the fractions of the
  ramps: \<open>last_speed\<close>, \<open>next_speed\<close>, the value of \<^verbatim>\<open>target_pos->speed\<close> after line 637
  (\<open>target_speed\<close>), \<open>accel_fraction\<close> and \<open>decel_fraction\<close>. Each of its three
  \<^verbatim>\<open>assert\<close>s is an error.
\<close>
record ramp_plan =
  last_speed :: real
  next_speed :: real
  target_speed :: real
  accel_fraction :: real
  decel_fraction :: real

text \<open>
  Lines 621-637: the speed of the target lowered to the peak speed, the fraction of the
  acceleration, which may lower the speed again, and the fraction of the deceleration.
\<close>
definition ramp_fractions :: "real \<Rightarrow> int \<Rightarrow> real \<Rightarrow> real \<Rightarrow> real \<Rightarrow> real \<Rightarrow> ramp_plan" where
  "ramp_fractions a abs_defining_axis_steps last_speed' next_speed' peak_speed speed0 =
     (let speed1 = (if peak_speed < speed0 then peak_speed else speed0);
          accel = (if last_speed' < speed1
                   then steps_for_speed_change a last_speed' speed1 abs_defining_axis_steps
                   else (0, speed1));
          accel_fraction' =
            (if last_speed' < speed1
             then fst accel / real_of_int abs_defining_axis_steps else 0);
          speed2 = snd accel;
          decel_fraction' =
            (if next_speed' < speed2
             then fst (steps_for_speed_change (- a) speed2 next_speed'
                         abs_defining_axis_steps)
                    / real_of_int abs_defining_axis_steps
             else 0)
      in \<lparr>last_speed = last_speed', next_speed = next_speed',
          target_speed = speed2, accel_fraction = accel_fraction',
          decel_fraction = decel_fraction'\<rparr>)"

definition plan_ramps ::
  "Impl \<Rightarrow> AxisTarget \<Rightarrow> AxisTarget \<Rightarrow> AxisTarget \<Rightarrow> error + ramp_plan" where
  "plan_ramps s last_pos target_pos upcoming =
     (if \<not> speed target_pos > 0 then Inl AssertionFailed
      else
        (let defining_axis' = defining_axis target_pos;
             last_speed' = \<bar>get_speed_for_axis last_pos defining_axis'\<bar>;
             next_speed' = determine_joining_speed target_pos upcoming
                             (threshold_angle (cfg s)) \<bar>angle last_pos - angle target_pos\<bar>;
             axis_steps = delta_steps target_pos;
             abs_defining_axis_steps = \<bar>axis_steps defining_axis'\<bar>;
             a = acceleration_for_move s axis_steps defining_axis';
             peak_speed = get_peak_speed (real_of_int abs_defining_axis_steps)
                            last_speed' next_speed' a
         in if \<not> peak_speed > 0 then Inl AssertionFailed
            else
              (let p = ramp_fractions a abs_defining_axis_steps last_speed' next_speed'
                         peak_speed (speed target_pos)
               in if \<not> accel_fraction p + decel_fraction p \<le> 1 + 1/10000
                  then Inl AssertionFailed
                  else Inr p)))"

text \<open>
  The second part (lines 647-651): the number of steps of the two ramps, converted to
  \<^verbatim>\<open>int\<close>, their length in mm, and \<open>do_accel\<close>.
\<close>
definition accel_decel_steps :: "AxisTarget \<Rightarrow> ramp_plan \<Rightarrow> int" where
  "accel_decel_steps target_pos p =
     float_to_int ((accel_fraction p + decel_fraction p)
                   * real_of_int \<bar>delta_steps target_pos (defining_axis target_pos)\<bar>)"

definition accel_decel_mm :: "Impl \<Rightarrow> AxisTarget \<Rightarrow> ramp_plan \<Rightarrow> real" where
  "accel_decel_mm s target_pos p =
     real_of_int (accel_decel_steps target_pos p)
       / steps_per_mm (cfg s) (defining_axis target_pos)"

definition do_accel :: "Impl \<Rightarrow> AxisTarget \<Rightarrow> ramp_plan \<Rightarrow> bool" where
  "do_accel s target_pos p =
     (accel_decel_mm s target_pos p > 2 \<or> accel_decel_steps target_pos p > 16)"

text \<open>
  The ramp length as the spec words it (section 4.3, step 6): \<open>s_ramp = (f_acc + f_dec) \<cdot> S\<close>
  on the defining axis, not converted to \<^verbatim>\<open>int\<close>, and \<open>mm_ramp = s_ramp / steps_per_mm[d]\<close>.
\<close>
definition s_ramp :: "AxisTarget \<Rightarrow> ramp_plan \<Rightarrow> real" where
  "s_ramp target_pos p =
     (accel_fraction p + decel_fraction p)
       * real_of_int \<bar>delta_steps target_pos (defining_axis target_pos)\<bar>"

definition mm_ramp :: "Impl \<Rightarrow> AxisTarget \<Rightarrow> ramp_plan \<Rightarrow> real" where
  "mm_ramp s target_pos p =
     s_ramp target_pos p / steps_per_mm (cfg s) (defining_axis target_pos)"

text \<open>
  The third part (lines 656-702): the three commands and what is sent to the motor
  queue. \<open>has_accel\<close> and \<open>has_decel\<close> are the conditions of lines 660 and 673.
\<close>
definition has_accel :: "Impl \<Rightarrow> AxisTarget \<Rightarrow> ramp_plan \<Rightarrow> bool" where
  "has_accel s target_pos p =
     (do_accel s target_pos p
      \<and> accel_fraction p
          * real_of_int \<bar>delta_steps target_pos (defining_axis target_pos)\<bar> > 0)"

definition has_decel :: "Impl \<Rightarrow> AxisTarget \<Rightarrow> ramp_plan \<Rightarrow> bool" where
  "has_decel s target_pos p =
     (do_accel s target_pos p
      \<and> decel_fraction p
          * real_of_int \<bar>delta_steps target_pos (defining_axis target_pos)\<bar> > 0)"

text \<open>The commands after the two \<^verbatim>\<open>memcpy\<close> of lines 593-594: no steps, the aux bits.\<close>
definition common_command :: "AxisTarget \<Rightarrow> MotorMovement" where
  "common_command target_pos =
     \<lparr>steps = (\<lambda>_. 0), v0 = 0, v1 = 0, mm_aux_bits = aux_bits target_pos\<rparr>"

definition accel_command :: "Impl \<Rightarrow> AxisTarget \<Rightarrow> ramp_plan \<Rightarrow> MotorMovement" where
  "accel_command s target_pos p =
     (if has_accel s target_pos p
      then fold (\<lambda>i c. assign_steps_to_motors s c i
                         (round2int (accel_fraction p * real_of_int (delta_steps target_pos i))))
             [0..<GCODE_NUM_AXES]
             ((common_command target_pos)\<lparr>v0 := last_speed p, v1 := target_speed p\<rparr>)
      else common_command target_pos)"

definition decel_command :: "Impl \<Rightarrow> AxisTarget \<Rightarrow> ramp_plan \<Rightarrow> MotorMovement" where
  "decel_command s target_pos p =
     (if has_decel s target_pos p
      then fold (\<lambda>i c. assign_steps_to_motors s c i
                         (round2int (decel_fraction p * real_of_int (delta_steps target_pos i))))
             [0..<GCODE_NUM_AXES]
             ((common_command target_pos)\<lparr>v0 := target_speed p, v1 := next_speed p\<rparr>)
      else common_command target_pos)"

text \<open>
  The cruise command (lines 596-597 and 690-695) with the flag \<open>has_move\<close>. Its speeds
  are those of the target on entry (line 596 is before the speed is lowered).
\<close>
definition move_command :: "Impl \<Rightarrow> AxisTarget \<Rightarrow> ramp_plan \<Rightarrow> MotorMovement \<times> bool" where
  "move_command s target_pos p =
     (let c = fold (\<lambda>i c. assign_steps_to_motors s c i (delta_steps target_pos i))
                [0..<GCODE_NUM_AXES]
                ((common_command target_pos)\<lparr>v0 := speed target_pos, v1 := speed target_pos\<rparr>);
          c = fst (substract_steps c (accel_command s target_pos p))
      in substract_steps c (decel_command s target_pos p))"

text \<open>
  \<^verbatim>\<open>move_machine_steps\<close>: the target as the call leaves it and the calls made to the motor
  queue. The speed of the target is overwritten with \<open>next_speed\<close> at line 677, in the
  branch of the deceleration.
\<close>
definition move_machine_steps ::
  "Impl \<Rightarrow> AxisTarget \<Rightarrow> AxisTarget \<Rightarrow> AxisTarget \<Rightarrow> error + (AxisTarget \<times> motor_event list)" where
  "move_machine_steps s last_pos target_pos upcoming =
     (if delta_steps target_pos (defining_axis target_pos) = 0 then Inr (target_pos, [])
      else
        (case plan_ramps s last_pos target_pos upcoming of
           Inl e \<Rightarrow> Inl e
         | Inr p \<Rightarrow>
             Inr (target_pos\<lparr>speed := (if has_decel s target_pos p then next_speed p
                                         else target_speed p)\<rparr>,
                  (if synchronous (cfg s) then [WaitQueueEmpty] else [])
                  @ (if has_accel s target_pos p then [Enqueue (accel_command s target_pos p)]
                     else [])
                  @ (if snd (move_command s target_pos p)
                     then [Enqueue (fst (move_command s target_pos p))] else [])
                  @ (if has_decel s target_pos p then [Enqueue (decel_command s target_pos p)]
                     else []))))"

text \<open>The commands among the calls to the motor queue.\<close>
fun enqueued :: "motor_event list \<Rightarrow> MotorMovement list" where
  "enqueued [] = []"
| "enqueued (Enqueue c # es) = c # enqueued es"
| "enqueued (e # es) = enqueued es"

text \<open>\<^verbatim>\<open>issue_motor_move_if_possible\<close> (lines 706-713).\<close>
definition issue_motor_move_if_possible :: "Impl \<Rightarrow> error + Impl" where
  "issue_motor_move_if_possible s =
     (let rb = planning_buffer s
      in if ring_size rb \<ge> 3 then
           (case (ring_at rb 0, ring_at rb 1, ring_at rb 2) of
              (Inr i0, Inr i1, Inr i2) \<Rightarrow>
                (case move_machine_steps s (buffer rb i0) (buffer rb i1) (buffer rb i2) of
                   Inl e \<Rightarrow> Inl e
                 | Inr (target', events) \<Rightarrow>
                     (case ring_pop_front (rb\<lparr>buffer := (buffer rb)(i1 := target')\<rparr>) of
                        Inl e \<Rightarrow> Inl e
                      | Inr rb' \<Rightarrow>
                          Inr (s\<lparr>motor_ops := motor_ops s @ events, planning_buffer := rb'\<rparr>)))
            | _ \<Rightarrow> Inl AssertionFailed)
         else Inr s)"

subsection \<open>The target builder\<close>

text \<open>
  \<^verbatim>\<open>atan2f\<close> of the C library, on the reals: the angle of the point \<open>(x, y)\<close> in
  \<open>(-\<pi>, \<pi>]\<close>.
\<close>
definition atan2f :: "real \<Rightarrow> real \<Rightarrow> real" where
  "atan2f y x =
     (if x > 0 then arctan (y / x)
      else if x < 0 \<and> y \<ge> 0 then arctan (y / x) + pi
      else if x < 0 \<and> y < 0 then arctan (y / x) - pi
      else if y > 0 then pi / 2
      else if y < 0 then - pi / 2
      else 0)"

text \<open>
  The body of the loop over the axes in \<^verbatim>\<open>machine_move\<close> (lines 726-737), on the new
  entry and the loop's variables \<open>max_steps\<close> and \<open>defining_axis\<close>.
\<close>
definition machine_move_axis ::
  "Impl \<Rightarrow> AxesRegister \<Rightarrow> AxisTarget \<Rightarrow> nat \<Rightarrow> AxisTarget \<times> int \<times> nat
   \<Rightarrow> AxisTarget \<times> int \<times> nat" where
  "machine_move_axis s axis previous i st =
     (case st of (new_pos, max_steps, defining_axis') \<Rightarrow>
        (let p = round2int (axis i * steps_per_mm (cfg s) i);
             d = p - position_steps previous i;
             new_pos = new_pos\<lparr>position_steps := (position_steps new_pos)(i := p),
                               delta_steps := (delta_steps new_pos)(i := d)\<rparr>
         in if \<bar>d\<bar> > max_steps then (new_pos, \<bar>d\<bar>, i)
            else (new_pos, max_steps, defining_axis')))"

text \<open>
  The speed and the angle of the new entry (lines 743-771), from the entry with its
  steps, aux bits, defining axis and default angle set.
\<close>
definition travel_speed_and_angle :: "Impl \<Rightarrow> real \<Rightarrow> int \<Rightarrow> AxisTarget \<Rightarrow> AxisTarget" where
  "travel_speed_and_angle s feedrate max_steps new_pos =
     (if max_steps > 0 then
        (let defining_axis' = defining_axis new_pos;
             travel_speed = feedrate * steps_per_mm (cfg s) defining_axis';
             euclid = (defining_axis' = AXIS_X \<or> defining_axis' = AXIS_Y
                       \<or> defining_axis' = AXIS_Z);
             x = real_of_int (delta_steps new_pos AXIS_X) / steps_per_mm (cfg s) AXIS_X;
             y = real_of_int (delta_steps new_pos AXIS_Y) / steps_per_mm (cfg s) AXIS_Y;
             z = real_of_int (delta_steps new_pos AXIS_Z) / steps_per_mm (cfg s) AXIS_Z;
             total_xyz_len_mm = euclid_distance x y z;
             steps_per_mm' = steps_per_mm (cfg s) defining_axis';
             defining_axis_len_mm =
               real_of_int (delta_steps new_pos defining_axis') / steps_per_mm';
             euclid_fraction = \<bar>defining_axis_len_mm\<bar> / total_xyz_len_mm;
             travel_speed = (if euclid then travel_speed * euclid_fraction else travel_speed);
             new_pos = (if euclid \<and> z = 0
                        then new_pos\<lparr>angle := (atan2f y x / 3.14159265359) * 180\<rparr>
                        else new_pos);
             travel_speed = (if travel_speed > max_axis_speed s defining_axis'
                             then max_axis_speed s defining_axis' else travel_speed)
         in new_pos\<lparr>speed := travel_speed\<rparr>)
      else new_pos\<lparr>speed := 0\<rparr>)"

text \<open>
  The new entry that \<^verbatim>\<open>machine_move\<close> builds (lines 720-771) from the previous entry and
  the content of the slot reserved for it.
\<close>
definition new_axis_target ::
  "Impl \<Rightarrow> real \<Rightarrow> AxesRegister \<Rightarrow> AxisTarget \<Rightarrow> AxisTarget \<Rightarrow> AxisTarget" where
  "new_axis_target s feedrate axis previous slot =
     (let (new_pos, max_steps, defining_axis') =
            fold (machine_move_axis s axis previous) [0..<GCODE_NUM_AXES] (slot, - 1, AXIS_X);
          new_pos = new_pos\<lparr>aux_bits := aux_bits' s,
                            defining_axis := defining_axis',
                            angle := angle previous + 180\<rparr>
      in travel_speed_and_angle s feedrate max_steps new_pos)"

text \<open>\<^verbatim>\<open>machine_move\<close> (lines 715-774).\<close>
definition machine_move :: "Impl \<Rightarrow> real \<Rightarrow> AxesRegister \<Rightarrow> error + Impl" where
  "machine_move s feedrate axis =
     (case ring_back (planning_buffer s) of
        Inl e \<Rightarrow> Inl e
      | Inr previous_slot \<Rightarrow>
          (case ring_append (planning_buffer s) of
             Inl e \<Rightarrow> Inl e
           | Inr (new_slot, rb) \<Rightarrow>
               (let new_pos = new_axis_target s feedrate axis
                                (buffer rb previous_slot) (buffer rb new_slot)
                in issue_motor_move_if_possible
                     (s\<lparr>planning_buffer := rb\<lparr>buffer := (buffer rb)(new_slot := new_pos)\<rparr>\<rparr>))))"

text \<open>\<^verbatim>\<open>bring_path_to_halt\<close> (lines 776-790).\<close>
definition bring_path_to_halt :: "Impl \<Rightarrow> error + Impl" where
  "bring_path_to_halt s =
     (case ring_back (planning_buffer s) of
        Inl e \<Rightarrow> Inl e
      | Inr previous_slot \<Rightarrow>
          (case ring_append (planning_buffer s) of
             Inl e \<Rightarrow> Inl e
           | Inr (new_slot, rb) \<Rightarrow>
               (let previous = buffer rb previous_slot;
                    new_pos =
                      fold (\<lambda>i n. n\<lparr>position_steps :=
                                        (position_steps n)(i := position_steps previous i),
                                      delta_steps := (delta_steps n)(i := 0)\<rparr>)
                        [0..<GCODE_NUM_AXES] (buffer rb new_slot);
                    new_pos = new_pos\<lparr>defining_axis := AXIS_X, speed := 0,
                                      aux_bits := aux_bits' s\<rparr>
                in issue_motor_move_if_possible
                     (s\<lparr>planning_buffer := rb\<lparr>buffer := (buffer rb)(new_slot := new_pos)\<rparr>\<rparr>))))"

text \<open>
  The entry that \<^verbatim>\<open>bring_path_to_halt\<close> writes (lines 782-788), from the previous
  entry and the content of the slot reserved for it.
\<close>
definition halt_target :: "Impl \<Rightarrow> AxisTarget \<Rightarrow> AxisTarget \<Rightarrow> AxisTarget" where
  "halt_target s previous slot =
     (fold (\<lambda>i n. n\<lparr>position_steps := (position_steps n)(i := position_steps previous i),
                     delta_steps := (delta_steps n)(i := 0)\<rparr>)
        [0..<GCODE_NUM_AXES] slot)
       \<lparr>defining_axis := AXIS_X, speed := 0, aux_bits := aux_bits' s\<rparr>"

subsection \<open>The move callbacks\<close>

definition newline :: string where
  "newline = [CHR 0x0A]"

definition please_home_message :: message where
  "please_home_message = (''// ERROR: please home machine first (G28).'' @ newline, [])"

text \<open>\<^verbatim>\<open>test_homing_status_ok\<close> (lines 792-799).\<close>
definition test_homing_status_ok :: "Impl \<Rightarrow> bool \<times> Impl" where
  "test_homing_status_ok s =
     (if \<not> require_homing (cfg s) then (True, s)
      else if homing_state s \<noteq> HOMING_STATE_NEVER_HOMED then (True, s)
      else (False, mprintf s please_home_message))"

text \<open>
  \<^verbatim>\<open>test_within_machine_limits\<close> (lines 801-844): the loop over the axes, which returns
  at the first axis out of range.
\<close>
fun machine_limits_loop :: "Impl \<Rightarrow> AxesRegister \<Rightarrow> nat list \<Rightarrow> bool \<times> Impl" where
  "machine_limits_loop s axes [] = (True, s)"
| "machine_limits_loop s axes (i # rest) =
     (if axes i < 0 then
        (if coordinate_display_origin s i \<noteq> 0
         then (False, mprintf s
                 (''// ERROR outside machine limit: Axis %c < min allowed ''
                  @ ''%+.1fmm in current coordinate system. Ignoring move!'' @ newline,
                  [ArgC (gcodep_axis2letter i), ArgF (- coordinate_display_origin s i)]))
         else (False, mprintf s
                 (''// ERROR outside machine limit: Axis %c < 0. Ignoring move!'' @ newline,
                  [ArgC (gcodep_axis2letter i)])))
      else if move_range_mm (cfg s) i \<le> 0 then machine_limits_loop s axes rest
      else
        (let max_limit = move_range_mm (cfg s) i
         in if axes i > max_limit then
              (if coordinate_display_origin s i \<noteq> 0
               then (False, mprintf s
                       (''// ERROR outside machine limit: Axis %c > max allowed %+.1fmm ''
                        @ ''in current coordinate system (=%.1fmm machine absolute). ''
                        @ ''Ignoring move!'' @ newline,
                        [ArgC (gcodep_axis2letter i),
                         ArgF (max_limit - coordinate_display_origin s i), ArgF max_limit]))
               else (False, mprintf s
                       (''// ERROR outside machine limit: Axis %c > %.1fmm. ''
                        @ ''Ignoring move!'' @ newline,
                        [ArgC (gcodep_axis2letter i), ArgF max_limit])))
            else machine_limits_loop s axes rest))"

definition test_within_machine_limits :: "Impl \<Rightarrow> AxesRegister \<Rightarrow> bool \<times> Impl" where
  "test_within_machine_limits s axes =
     (if \<not> range_check (cfg s) then (True, s)
      else machine_limits_loop s axes [0..<GCODE_NUM_AXES])"

text \<open>
  \<^verbatim>\<open>coordinated_move\<close> (lines 846-858): the value returned and the state. The two
  products of lines 853 and 855 are float products.
\<close>
definition coordinated_move :: "Impl \<Rightarrow> real \<Rightarrow> AxesRegister \<Rightarrow> error + (bool \<times> Impl)" where
  "coordinated_move s feed axis =
     (case test_homing_status_ok s of
        (False, s1) \<Rightarrow> Inr (False, s1)
      | (True, s1) \<Rightarrow>
          (case test_within_machine_limits s1 axis of
             (False, s2) \<Rightarrow> Inr (False, s2)
           | (True, s2) \<Rightarrow>
               (let s3 = (if feed > 0
                          then s2\<lparr>current_feedrate_mm_per_sec :=
                                    to_float (speed_factor (cfg s2) * feed)\<rparr>
                          else s2);
                    feedrate = to_float (prog_speed_factor s3 * current_feedrate_mm_per_sec s3)
                in case machine_move s3 feedrate axis of
                     Inl e \<Rightarrow> Inl e
                   | Inr s4 \<Rightarrow> Inr (True, s4))))"

text \<open>\<^verbatim>\<open>rapid_move\<close> (lines 860-870). Line 867 multiplies twice, from the left.\<close>
definition rapid_move :: "Impl \<Rightarrow> real \<Rightarrow> AxesRegister \<Rightarrow> error + (bool \<times> Impl)" where
  "rapid_move s feed axis =
     (case test_homing_status_ok s of
        (False, s1) \<Rightarrow> Inr (False, s1)
      | (True, s1) \<Rightarrow>
          (case test_within_machine_limits s1 axis of
             (False, s2) \<Rightarrow> Inr (False, s2)
           | (True, s2) \<Rightarrow>
               (let rapid_feed = g0_feedrate_mm_per_sec s2;
                    given = to_float (to_float (speed_factor (cfg s2) * prog_speed_factor s2)
                                      * feed)
                in case machine_move s2 (if given > 0 then given else rapid_feed) axis of
                     Inl e \<Rightarrow> Inl e
                   | Inr s3 \<Rightarrow> Inr (True, s3))))"

text \<open>
  \<^verbatim>\<open>set_speed_factor\<close> (lines 882-892), and the message of lines 887-888. The sum of
  line 884 and the product of line 888 are float operations. The comparison of line 886
  is made in double, with the double nearest to 0.005; no binary32 number lies between
  0.005 and that double, so for a float it is the comparison with 0.005.
\<close>
definition M220_message :: "real \<Rightarrow> message" where
  "M220_message val =
     (''// M220: Not accepting speed factors < 0.5%% (got %.1f%%)'' @ newline,
      [ArgF (to_float (100 * val))])"

definition set_speed_factor :: "Impl \<Rightarrow> real \<Rightarrow> Impl" where
  "set_speed_factor s val =
     (let val = (if val < 0 then to_float (1 + val) else val)
      in if val < 0.005 then mprintf s (M220_message val)
         else s\<lparr>prog_speed_factor := val\<rparr>)"

text \<open>\<^verbatim>\<open>input_idle\<close> (lines 878-880) and \<^verbatim>\<open>gcode_finished\<close> (lines 442-444).\<close>
definition input_idle :: "Impl \<Rightarrow> error + Impl" where
  "input_idle s = bring_path_to_halt s"

definition gcode_finished :: "Impl \<Rightarrow> error + Impl" where
  "gcode_finished s = bring_path_to_halt s"

text \<open>\<^verbatim>\<open>motors_enable\<close> (lines 236-242).\<close>
definition motors_enable :: "Impl \<Rightarrow> bool \<Rightarrow> error + Impl" where
  "motors_enable s b =
     (case bring_path_to_halt s of
        Inl e \<Rightarrow> Inl e
      | Inr s1 \<Rightarrow>
          (let s2 = s1\<lparr>motor_ops := motor_ops s1 @ [MotorEnable b]\<rparr>
           in Inr (if homing_state s2 = HOMING_STATE_HOMED
                   then s2\<lparr>homing_state := HOMING_STATE_HOMED_BUT_MOTORS_UNPOWERED\<rparr>
                   else s2)))"

subsection \<open>Homing\<close>










subsection \<open>Substrings\<close>

text \<open>\<open>contains t p\<close>: the text \<open>t\<close> has the substring \<open>p\<close>.\<close>
fun contains :: "string \<Rightarrow> string \<Rightarrow> bool" where
  "contains t p =
     (if take (length p) t = p then True
      else (case t of [] \<Rightarrow> False | c # cs \<Rightarrow> contains cs p))"

declare contains.simps [simp del]

section \<open>Concrete inputs\<close>

text \<open>An axis target that moves only the X axis by \<open>n\<close> steps, at speed \<open>v\<close>.\<close>
definition x_move :: "int \<Rightarrow> real \<Rightarrow> AxisTarget" where
  "x_move n v =
     \<lparr>position_steps = (\<lambda>_. 0)(AXIS_X := n), delta_steps = (\<lambda>_. 0)(AXIS_X := n),
      defining_axis = AXIS_X, speed = v, angle = 0, aux_bits = 0\<rparr>"

text \<open>
  The machine of the end-to-end scenarios of the spec, after construction: the default
  configuration of the source (lines 63-71 and 1271-1283) with the axes X, Y, Z, E, A
  on the drivers 0 to 4, nothing flipped, no endstops, a message stream, and the
  planning buffer holding the initial position.
\<close>
definition origin_target :: AxisTarget where
  "origin_target =
     \<lparr>position_steps = (\<lambda>_. 0), delta_steps = (\<lambda>_. 0), defining_axis = AXIS_X,
      speed = 0, angle = 0, aux_bits = 0\<rparr>"

definition default_config :: MachineControlConfig where
  "default_config =
     \<lparr>steps_per_mm = (\<lambda>_. 0)(0 := 160, 1 := 160, 2 := 160, 3 := 40, 4 := 1),
      move_range_mm = (\<lambda>_. 0),
      speed_factor = 1,
      threshold_angle = 10,
      home_order = ''ZXY'',
      require_homing = False,
      range_check = True,
      synchronous = False\<rparr>"

definition no_endstop :: EndstopConfig where
  "no_endstop = \<lparr>trigger_value = 0, homing_use = False, endstop_number = 0\<rparr>"

definition default_machine :: Impl where
  "default_machine =
     \<lparr>cfg = default_config,
      motor_ops = [],
      msg_stream = Some [],
      g0_feedrate_mm_per_sec = 200,
      max_axis_speed = (\<lambda>_. 0)(0 := 32000, 1 := 32000, 2 := 14400, 3 := 400, 4 := 1),
      max_axis_accel = (\<lambda>_. 0)(0 := 640000, 1 := 640000, 2 := 160000, 3 := 400000, 4 := 1),
      axis_to_driver = (\<lambda>_. 0)(0 := 1, 1 := 2, 2 := 4, 3 := 8, 4 := 16),
      axis_flip = (\<lambda>_. 1),
      driver_flip = (\<lambda>_. 1),
      min_endstop = (\<lambda>_. no_endstop),
      max_endstop = (\<lambda>_. no_endstop),
      coordinate_display_origin = (\<lambda>_. 0),
      current_feedrate_mm_per_sec = 20,
      prog_speed_factor = 1,
      aux_bits' = 0,
      planning_buffer = \<lparr>buffer = (\<lambda>_. origin_target), read_pos = 0, count = 1\<rparr>,
      homing_state = HOMING_STATE_NEVER_HOMED,
      END_GPIO = (\<lambda>n. n),
      gpio_input = (\<lambda>_ _. 0),
      gpio_reads = 0\<rparr>"

text \<open>The same machine, requiring homing, without a message stream.\<close>
definition silent_machine :: Impl where
  "silent_machine =
     default_machine\<lparr>cfg := default_config\<lparr>require_homing := True\<rparr>, msg_stream := None\<rparr>"

text \<open>The same machine, requiring homing, with its message stream.\<close>
definition homing_machine :: Impl where
  "homing_machine = default_machine\<lparr>cfg := default_config\<lparr>require_homing := True\<rparr>\<rparr>"

text \<open>The target position at the origin of all axes.\<close>
definition at_origin :: AxesRegister where
  "at_origin = (\<lambda>_. 0)"

text \<open>
  The inputs of the segmenter in the examples: a previous entry without motion whose
  angle differs from that of the target by 180 degrees, and a halt sentinel at \<open>n\<close>
  steps on X.
\<close>
definition stale_origin :: AxisTarget where
  "stale_origin = origin_target\<lparr>angle := 180\<rparr>"

definition halt_at :: "int \<Rightarrow> AxisTarget" where
  "halt_at n =
     \<lparr>position_steps = (\<lambda>_. 0)(AXIS_X := n), delta_steps = (\<lambda>_. 0),
      defining_axis = AXIS_X, speed = 0, angle = 0, aux_bits = 0\<rparr>"

text \<open>
  A machine whose X axis has 16 steps per mm, a maximal feedrate of 256 mm/s and an
  acceleration of 64 mm per second squared: 4096 steps/s and 1024 steps per second squared.
\<close>
definition binary_machine :: Impl where
  "binary_machine =
     default_machine
       \<lparr>cfg := default_config\<lparr>steps_per_mm := (steps_per_mm default_config)(0 := 16)\<rparr>,
        max_axis_speed := (max_axis_speed default_machine)(0 := 4096),
        max_axis_accel := (max_axis_accel default_machine)(0 := 1024)\<rparr>"

text \<open>
  Target positions in mm: 0.25 on E with 10 on A, and 10 on X.
\<close>
definition ea_target :: AxesRegister where
  "ea_target = (\<lambda>_. 0)(3 := 1/4, 4 := 10)"

definition x10_target :: AxesRegister where
  "x10_target = (\<lambda>_. 0)(0 := 10)"

text \<open>
  The ramps that the segmenter plans on the binary machine, from rest to a halt.
  \<open>micro_plan\<close>: 16 steps on X at 64 steps/s. \<open>long_plan\<close>: 1024 steps at 512 steps/s.
  \<open>ramp_plan_16\<close>: 64 steps at 130 steps/s, with ramps of 16900/1024 steps.
\<close>
definition micro_plan :: ramp_plan where
  "micro_plan = \<lparr>last_speed = 0, next_speed = 0, target_speed = 64,
                  accel_fraction = 1/8, decel_fraction = 1/8\<rparr>"

definition long_plan :: ramp_plan where
  "long_plan = \<lparr>last_speed = 0, next_speed = 0, target_speed = 512,
                 accel_fraction = 1/8, decel_fraction = 1/8\<rparr>"

definition ramp_plan_16 :: ramp_plan where
  "ramp_plan_16 = \<lparr>last_speed = 0, next_speed = 0, target_speed = 130,
                    accel_fraction = 16900/131072, decel_fraction = 16900/131072\<rparr>"

text \<open>
  The binary machine with a move pending: the buffer holds the entry at rest and a move
  of 1024 steps on X at 512 steps/s, and the aux mask is 5.
\<close>
definition busy_machine :: Impl where
  "busy_machine =
     binary_machine
       \<lparr>aux_bits' := 5,
        planning_buffer :=
          \<lparr>buffer = (\<lambda>_. origin_target)(0 := stale_origin, 1 := x_move 1024 512),
           read_pos = 0, count = 2\<rparr>\<rparr>"

section \<open>Properties\<close>

subsection \<open>The junction solver\<close>

lemma joining_speed_loop_gentle:
  "angle' < threshold \<Longrightarrow> joining_speed_loop from to threshold angle' axes is_first v = v"
  by (induction axes) simp_all

lemma joining_speed_loop_turnaround:
  assumes "k \<in> set axes" and "\<not> angle' < threshold"
    and "(delta_steps from k < 0 \<and> delta_steps to k > 0)
         \<or> (delta_steps from k > 0 \<and> delta_steps to k < 0)"
  shows "joining_speed_loop from to threshold angle' axes is_first v = 0"
  using assms(1)
proof (induction axes arbitrary: is_first v)
  case Nil
  then show ?case by simp
next
  case (Cons a axes)
  show ?case
  proof (cases "a = k")
    case True
    with assms(2,3) show ?thesis by (auto simp: Let_def)
  next
    case False
    with Cons.prems have "k \<in> set axes" by simp
    then have "\<And>f w. joining_speed_loop from to threshold angle' axes f w = 0"
      by (rule Cons.IH)
    then show ?thesis by (simp add: Let_def)
  qed
qed

text \<open>
  C3, as the spec states it, fails: with a corner angle below the threshold every axis
  is skipped and the speed of \<open>from\<close> is returned, here 100 for a reversal on X.
\<close>
theorem turnaround_zero_counterexample:
  "delta_steps (x_move 10 100) AXIS_X > 0 \<and> delta_steps (x_move (-10) 100) AXIS_X < 0
   \<and> determine_joining_speed (x_move 10 100) (x_move (-10) 100) 10 0 = 100"
  by (simp add: determine_joining_speed_def joining_speed_loop_gentle x_move_def)

text \<open>
  C3, amended: when some axis has non-zero deltas of opposite signs in \<open>from\<close> and \<open>to\<close>
  and the corner angle is not below the threshold angle, \<open>determine_joining_speed\<close>
  returns 0.
\<close>
theorem turnaround_zero:
  assumes "k < GCODE_NUM_AXES" and "\<not> corner_angle < threshold"
    and "(delta_steps from k < 0 \<and> delta_steps to k > 0)
         \<or> (delta_steps from k > 0 \<and> delta_steps to k < 0)"
  shows "determine_joining_speed from to threshold corner_angle = 0"
  unfolding determine_joining_speed_def
  using assms by (intro joining_speed_loop_turnaround[where k = k]) simp_all

theorem turnaround_zero_witness:
  "AXIS_X < GCODE_NUM_AXES \<and> \<not> (90::real) < 10
   \<and> determine_joining_speed (x_move 10 100) (x_move (-10) 100) 10 90 = 0"
  using turnaround_zero[of AXIS_X 90 10 "x_move 10 100" "x_move (-10) 100"]
  by (simp add: x_move_def AXIS_X_def GCODE_NUM_AXES_def)


subsection \<open>Rejection of moves before homing\<close>

lemma test_homing_status_ok_unhomed:
  "require_homing (cfg s) \<Longrightarrow> homing_state s = HOMING_STATE_NEVER_HOMED
   \<Longrightarrow> test_homing_status_ok s = (False, mprintf s please_home_message)"
  by (simp add: test_homing_status_ok_def)

lemma contains_home: "contains (fst please_home_message) ''home''"
  by (simp add: please_home_message_def newline_def contains.simps)

lemma planning_buffer_mprintf [simp]: "planning_buffer (mprintf s m) = planning_buffer s"
  by (simp add: mprintf_def split: option.splits)

lemma motor_ops_mprintf [simp]: "motor_ops (mprintf s m) = motor_ops s"
  by (simp add: mprintf_def split: option.splits)

lemma msg_stream_mprintf:
  "msg_stream (mprintf s m) = map_option (\<lambda>out. out @ [m]) (msg_stream s)"
  by (simp add: mprintf_def split: option.splits)

text \<open>
  C7, as the spec states it, fails: a machine without a message stream (\<^verbatim>\<open>msg_stream_\<close>
  is NULL) rejects the move and prints nothing; the state is left as it was.
\<close>
theorem unhomed_move_rejected_counterexample:
  "require_homing (cfg silent_machine)
   \<and> homing_state silent_machine = HOMING_STATE_NEVER_HOMED
   \<and> msg_stream silent_machine = None
   \<and> coordinated_move silent_machine 100 at_origin = Inr (False, silent_machine)
   \<and> rapid_move silent_machine 100 at_origin = Inr (False, silent_machine)"
  by (simp add: coordinated_move_def rapid_move_def test_homing_status_ok_def mprintf_def
      silent_machine_def default_machine_def)

text \<open>
  C7, amended: when \<open>require_homing\<close> is configured and the homing state is
  \<open>NEVER_HOMED\<close>, \<open>coordinated_move\<close> and \<open>rapid_move\<close> return false and leave the
  planning buffer and the motor queue unchanged; the diagnostic, which contains
  "home", is appended to the message stream if there is one.
\<close>
theorem unhomed_move_rejected:
  assumes "require_homing (cfg s)" and "homing_state s = HOMING_STATE_NEVER_HOMED"
  shows "coordinated_move s feed axis = Inr (False, mprintf s please_home_message)
       \<and> rapid_move s feed axis = Inr (False, mprintf s please_home_message)
       \<and> planning_buffer (mprintf s please_home_message) = planning_buffer s
       \<and> motor_ops (mprintf s please_home_message) = motor_ops s
       \<and> msg_stream (mprintf s please_home_message)
           = map_option (\<lambda>out. out @ [please_home_message]) (msg_stream s)
       \<and> contains (fst please_home_message) ''home''"
  using assms
  by (simp add: coordinated_move_def rapid_move_def test_homing_status_ok_unhomed
      contains_home msg_stream_mprintf)

theorem unhomed_move_rejected_witness:
  "require_homing (cfg homing_machine)
   \<and> homing_state homing_machine = HOMING_STATE_NEVER_HOMED
   \<and> coordinated_move homing_machine 100 at_origin
       = Inr (False, homing_machine\<lparr>msg_stream := Some [please_home_message]\<rparr>)
   \<and> rapid_move homing_machine 100 at_origin
       = Inr (False, homing_machine\<lparr>msg_stream := Some [please_home_message]\<rparr>)"
  using unhomed_move_rejected[of homing_machine 100 at_origin]
  by (simp add: homing_machine_def default_machine_def mprintf_def)


subsection \<open>The example machine\<close>

lemma axes_list: "[0..<GCODE_NUM_AXES] = [0, 1, 2, 3, 4, 5, 6, 7, 8, 9]"
  by (simp add: GCODE_NUM_AXES_def upt_rec)


lemma default_config_simps:
  "speed_factor default_config = 1"
  "threshold_angle default_config = 10"
  "home_order default_config = ''ZXY''"
  "require_homing default_config = False"
  "range_check default_config = True"
  "synchronous default_config = False"
  "move_range_mm default_config = (\<lambda>_. 0)"
  by (simp_all add: default_config_def)



subsection \<open>The speed factor\<close>

lemma test_homing_status_ok_state: "fst (test_homing_status_ok s) \<Longrightarrow> test_homing_status_ok s = (True, s)"
  by (simp add: test_homing_status_ok_def split: if_splits)

lemma machine_limits_loop_state:
  "fst (machine_limits_loop s axes xs) \<Longrightarrow> machine_limits_loop s axes xs = (True, s)"
  by (induction xs) (simp_all add: Let_def split: if_splits)

lemma test_within_machine_limits_state:
  "fst (test_within_machine_limits s axes) \<Longrightarrow> test_within_machine_limits s axes = (True, s)"
  by (simp add: test_within_machine_limits_def machine_limits_loop_state split: if_splits)

subsection \<open>The planning buffer and the halt sentinel\<close>


lemma mod4_shift_neq:
  fixes r d :: nat
  assumes "0 < d" and "d < 4"
  shows "(r + d) mod 4 \<noteq> r mod 4"
proof
  assume "(r + d) mod 4 = r mod 4"
  then have "4 dvd (r + d) - r" by (simp add: mod_eq_dvd_iff_nat)
  then have "4 dvd d" by simp
  with assms show False by (auto dest: dvd_imp_le)
qed
lemma ring_target_not_back: 
  fixes r c :: nat
  assumes "3 \<le> c" "c \<le> 4"
  shows "(r + 1) mod 4 \<noteq> (r + c - 1) mod 4"
proof -
  define d where "d = c - 2"
  from assms have c: "c = d + 2" and d: "0 < d" "d < 4"
    by (simp_all add: d_def)
  have "(r + c - 1) = (r + 1) + d" by (simp add: c)
  with mod4_shift_neq[OF d, of "r + 1"] show ?thesis by simp
qed
lemma ring_back_after_pop:
  fixes r c :: nat 
  assumes "3 \<le> c"
  shows "((r + 1) mod 4 + (c - 1) - 1) mod 4 = (r + c - 1) mod 4"
proof -
  define d where "d = c - 2"
  from assms have c: "c = d + 2" by (simp_all add: d_def)
  have "((r + 1) mod 4 + d) mod 4 = (r + 1 + d) mod 4" by (simp add: mod_add_left_eq)
  then show ?thesis by (simp add: c)
qed

lemma ring_append_not_back:
  fixes r c :: nat
  assumes "0 < c"
  shows "(r + c) mod 4 \<noteq> (r + c - 1) mod 4"
proof -
  from assms have "r + c = (r + c - 1) + 1" by simp
  with mod4_shift_neq[of 1 "r + c - 1"] show ?thesis by simp
qed

lemma ring_write_pos_after_pop:
  fixes r c :: nat
  assumes "3 \<le> c"
  shows "((r + 1) mod 4 + (c - 1)) mod 4 = (r + c) mod 4"
proof -
  define d where "d = c - 1"
  from assms have c: "c = d + 1" by (simp add: d_def)
  have "((r + 1) mod 4 + d) mod 4 = (r + 1 + d) mod 4" by (simp add: mod_add_left_eq)
  then show ?thesis by (simp add: c)
qed


lemma move_machine_steps_fields:
  assumes "move_machine_steps s l t u = Inr (t', evs)"
  shows "position_steps t' = position_steps t" "delta_steps t' = delta_steps t"
    "defining_axis t' = defining_axis t" "angle t' = angle t" "aux_bits t' = aux_bits t"
  using assms by (auto simp: move_machine_steps_def split: if_splits sum.splits)

lemma issue_cases:
  assumes "issue_motor_move_if_possible s = Inr s'"
  obtains (idle) "count (planning_buffer s) < 3" "s' = s"
  | (move) t' evs where "3 \<le> count (planning_buffer s)"
      "move_machine_steps s
         (buffer (planning_buffer s) (read_pos (planning_buffer s) mod CAPACITY))
         (buffer (planning_buffer s) ((read_pos (planning_buffer s) + 1) mod CAPACITY))
         (buffer (planning_buffer s) ((read_pos (planning_buffer s) + 2) mod CAPACITY))
       = Inr (t', evs)"
      "s' = s\<lparr>motor_ops := motor_ops s @ evs,
              planning_buffer := (planning_buffer s)
                \<lparr>buffer := (buffer (planning_buffer s))
                             ((read_pos (planning_buffer s) + 1) mod CAPACITY := t'),
                 read_pos := (read_pos (planning_buffer s) + 1) mod CAPACITY,
                 count := count (planning_buffer s) - 1\<rparr>\<rparr>"
  using assms
  by (auto simp: issue_motor_move_if_possible_def Let_def ring_size_def ring_at_def
      ring_pop_front_def split: if_splits sum.splits prod.splits)

lemma issue_back:
  assumes "issue_motor_move_if_possible s = Inr s'"
    and "ring_back (planning_buffer s) = Inr b" and "count (planning_buffer s) \<le> CAPACITY"
  shows "ring_back (planning_buffer s') = Inr b
       \<and> buffer (planning_buffer s') b = buffer (planning_buffer s) b"
  using assms(1)
proof (cases rule: issue_cases)
  case idle
  with assms show ?thesis by simp
next
  case (move t' evs)
  let ?r = "read_pos (planning_buffer s)" and ?c = "count (planning_buffer s)"
  from assms(2) have b: "b = (?r + ?c - 1) mod CAPACITY"
    by (simp add: ring_back_def split: if_splits)
  have ne: "(?r + 1) mod CAPACITY \<noteq> b"
    unfolding b CAPACITY_def using move(1) assms(3)
    by (intro ring_target_not_back) (simp_all add: CAPACITY_def)
  have eq: "((?r + 1) mod CAPACITY + (?c - 1) - 1) mod CAPACITY = b"
    unfolding b CAPACITY_def using move(1) by (rule ring_back_after_pop)
  show ?thesis
    using move(1) ne eq by (simp add: move(3) ring_back_def)
qed



lemma issue_write_pos:
  assumes "issue_motor_move_if_possible s = Inr s'"
  shows "(read_pos (planning_buffer s') + count (planning_buffer s')) mod CAPACITY
         = (read_pos (planning_buffer s) + count (planning_buffer s)) mod CAPACITY"
  using assms
proof (cases rule: issue_cases)
  case idle
  then show ?thesis by simp
next
  case (move t' evs)
  let ?r = "read_pos (planning_buffer s)" and ?c = "count (planning_buffer s)"
  from move(1) have "((?r + 1) mod 4 + (?c - 1)) mod 4 = (?r + ?c) mod 4"
    by (rule ring_write_pos_after_pop)
  then show ?thesis by (simp add: move(3) CAPACITY_def)
qed


lemma halt_loop_fields:
  "defining_axis (fold (\<lambda>i n. n\<lparr>position_steps := (position_steps n)(i := f i),
                                delta_steps := (delta_steps n)(i := 0)\<rparr>) xs t) = defining_axis t"
  "speed (fold (\<lambda>i n. n\<lparr>position_steps := (position_steps n)(i := f i),
                                delta_steps := (delta_steps n)(i := 0)\<rparr>) xs t) = speed t"
  by (induction xs arbitrary: t) simp_all

lemma halt_loop_steps:
  "position_steps (fold (\<lambda>i n. n\<lparr>position_steps := (position_steps n)(i := f i),
                                delta_steps := (delta_steps n)(i := 0)\<rparr>) xs t) i
     = (if i \<in> set xs then f i else position_steps t i)"
  "delta_steps (fold (\<lambda>i n. n\<lparr>position_steps := (position_steps n)(i := f i),
                                delta_steps := (delta_steps n)(i := 0)\<rparr>) xs t) i
     = (if i \<in> set xs then 0 else delta_steps t i)"
  by (induction xs arbitrary: t) simp_all

text \<open>
  A call of \<open>bring_path_to_halt\<close> that returns has reserved exactly one slot, the
  next one of the ring, which is then the back of the buffer; its entry has the
  position of the previous back entry on every axis, all deltas zero, the defining axis
  X (axis 0), speed 0 and the current aux bits.
\<close>
lemma halt_sentinel_of_return:
  assumes "bring_path_to_halt s = Inr s'"
  shows "\<exists>previous_slot new_slot.
           ring_back (planning_buffer s) = Inr previous_slot
         \<and> ring_back (planning_buffer s') = Inr new_slot
         \<and> new_slot = (read_pos (planning_buffer s) + count (planning_buffer s)) mod CAPACITY
         \<and> new_slot \<noteq> previous_slot
         \<and> (let previous = buffer (planning_buffer s) previous_slot;
                 t = buffer (planning_buffer s') new_slot
             in (\<forall>i < GCODE_NUM_AXES. position_steps t i = position_steps previous i)
              \<and> (\<forall>i < GCODE_NUM_AXES. delta_steps t i = 0)
              \<and> defining_axis t = AXIS_X \<and> AXIS_X = 0
              \<and> speed t = 0
              \<and> aux_bits t = aux_bits' s)
         \<and> (read_pos (planning_buffer s') + count (planning_buffer s')) mod CAPACITY
             = (read_pos (planning_buffer s) + count (planning_buffer s) + 1) mod CAPACITY"
proof -
  let ?rb = "planning_buffer s"
  from assms obtain p where p: "ring_back ?rb = Inr p"
    by (auto simp: bring_path_to_halt_def split: sum.splits)
  with assms obtain n rb where a: "ring_append ?rb = Inr (n, rb)"
    by (auto simp: bring_path_to_halt_def split: sum.splits)
  then have n: "n = (read_pos ?rb + count ?rb) mod CAPACITY"
    and rb: "rb = ?rb\<lparr>count := count ?rb + 1\<rparr>" and c: "count ?rb < CAPACITY"
    by (auto simp: ring_append_def split: if_splits)
  from p have pp: "p = (read_pos ?rb + count ?rb - 1) mod CAPACITY" and c0: "0 < count ?rb"
    by (auto simp: ring_back_def split: if_splits)
  have ne: "n \<noteq> p" unfolding n pp CAPACITY_def using c0 by (rule ring_append_not_back)
  define new_pos where "new_pos = (fold (\<lambda>i n. n\<lparr>position_steps :=
                                        (position_steps n)(i := position_steps (buffer rb p) i),
                                      delta_steps := (delta_steps n)(i := 0)\<rparr>)
                        [0..<GCODE_NUM_AXES] (buffer rb n))\<lparr>defining_axis := AXIS_X, speed := 0,
                                      aux_bits := aux_bits' s\<rparr>"
  define s1 where "s1 = s\<lparr>planning_buffer := rb\<lparr>buffer := (buffer rb)(n := new_pos)\<rparr>\<rparr>"
  from assms p a have issue: "issue_motor_move_if_possible s1 = Inr s'"
    by (simp add: bring_path_to_halt_def Let_def s1_def new_pos_def)
  have back1: "ring_back (planning_buffer s1) = Inr n"
    using c by (simp add: s1_def rb ring_back_def n)
  have cap1: "count (planning_buffer s1) \<le> CAPACITY"
    using c by (simp add: s1_def rb)
  from issue_back[OF issue back1 cap1]
  have back': "ring_back (planning_buffer s') = Inr n"
    and buf': "buffer (planning_buffer s') n = new_pos"
    by (simp_all add: s1_def)
  have shape: "(\<forall>i < GCODE_NUM_AXES. position_steps new_pos i = position_steps (buffer ?rb p) i)
              \<and> (\<forall>i < GCODE_NUM_AXES. delta_steps new_pos i = 0)
              \<and> defining_axis new_pos = AXIS_X \<and> AXIS_X = 0
              \<and> speed new_pos = 0
              \<and> aux_bits new_pos = aux_bits' s"
    by (simp add: new_pos_def halt_loop_steps rb AXIS_X_def)
  have wp: "(read_pos (planning_buffer s') + count (planning_buffer s')) mod CAPACITY
             = (read_pos ?rb + count ?rb + 1) mod CAPACITY"
    using issue_write_pos[OF issue] by (simp add: s1_def rb)
  show ?thesis
    using p back' n ne buf' shape wp by (simp add: Let_def)
qed

subsection \<open>Homing\<close>










end
